theory Spec2Isabelle
  imports Main
begin

section \<open>Errors and JavaScript primitives\<close>

text \<open>
  A rejected promise or a thrown exception is the left summand of a result.
  \<open>NoValidCandidateFound\<close> is the \<^verbatim>\<open>Error("Could not find valid public inputs")\<close> thrown at
  the end of \<^verbatim>\<open>getPublicInputsFromSignature\<close>; \<open>Propagated e\<close> is an exception \<open>e\<close> thrown by
  a collaborator (field, curve or point library) that the function does not catch.
  \<open>IndexOutOfRange\<close> is the error the specification names for the Merkle accumulator; no
  statement of the source throws it.
\<close>

datatype 'e error = IndexOutOfRange | NoValidCandidateFound | Propagated 'e

text \<open>JavaScript \<^verbatim>\<open>a % b\<close> on integers: the remainder takes the sign of the dividend.\<close>

definition js_rem :: "int \<Rightarrow> int \<Rightarrow> int" where
  "js_rem a b = sgn a * (\<bar>a\<bar> mod \<bar>b\<bar>)"

text \<open>JavaScript \<^verbatim>\<open>xs[i]\<close>: reading outside \<open>0 .. length - 1\<close> gives \<^verbatim>\<open>undefined\<close>, modelled as \<open>None\<close>.\<close>

definition js_at :: "'a list \<Rightarrow> int \<Rightarrow> 'a option" where
  "js_at xs i = (if 0 \<le> i \<and> i < int (length xs) then Some (xs ! nat i) else None)"

section \<open>The Merkle accumulator\<close>

text \<open>
  \<^verbatim>\<open>poseidon\<close> together with its canonicalisation
  \<^verbatim>\<open>hexToBigInt(poseidon.F.toString(poseidon([a, b]), 16))\<close> is one binary function on field
  elements. It comes from a library outside the repository, so it is a parameter.
\<close>

type_synonym hashFn = "int \<Rightarrow> int \<Rightarrow> int"

text \<open>
  \<^verbatim>\<open>interface MerkleProof { root: bigint; pathIndices: number[]; siblings: bigint[] }\<close>.
  At run time \<^verbatim>\<open>root\<close> and the entries of \<^verbatim>\<open>siblings\<close> are array reads, so each can be
  \<^verbatim>\<open>undefined\<close> (\<open>None\<close>).
\<close>

record MerkleProof =
  root :: "int option"
  pathIndices :: "int list"
  siblings :: "int option list"

definition TREE_DEPTH :: nat where
  "TREE_DEPTH = 8"

text \<open>The table \<^verbatim>\<open>ZEROS\<close>, each entry read through \<^verbatim>\<open>BigInt(ZEROS[i])\<close>.\<close>

definition ZEROS :: "int list" where
  "ZEROS =
    [0,
     14744269619966411208579211824598458697587494354926760081771325075741142829156,
     7423237065226347324353380772367382631490014989348495481811164164159255474657,
     11286972368698509976183087595462810875513684078608517520839298933882497716792,
     3607627140608796879659380071776844901612302623152076817094415224584923813162,
     19712377064642672829441595136074946683621277828620209496774504837737984048981,
     20775607673010627194014556968476266066927294572720319469184847051418138353016,
     3396914609616007258851405644437304192397291162432396347162513310381425243293]"

text \<open>
  The inner loop \<^verbatim>\<open>for (let j = 0; j < prevLayer.length; j += 2)\<close>; \<open>z\<close> is
  \<^verbatim>\<open>BigInt(ZEROS[i])\<close> of the enclosing level.
\<close>

function nextLayer_loop :: "hashFn \<Rightarrow> int \<Rightarrow> int list \<Rightarrow> nat \<Rightarrow> int list \<Rightarrow> int list" where
  "nextLayer_loop poseidon z prevLayer j nextLayer =
     (if j < length prevLayer then
        (let secondNode = (if j + 1 = length prevLayer then z else prevLayer ! (j + 1));
             nextNode = poseidon (prevLayer ! j) secondNode
         in nextLayer_loop poseidon z prevLayer (j + 2) (nextLayer @ [nextNode]))
      else nextLayer)"
  by pat_completeness auto
termination
  by (relation "measure (\<lambda>(poseidon, z, prevLayer, j, nextLayer). length prevLayer - j)") auto

text \<open>The variables the outer loop updates: \<^verbatim>\<open>index\<close>, \<^verbatim>\<open>prevLayer\<close>, \<^verbatim>\<open>pathIndices\<close>, \<^verbatim>\<open>siblings\<close>.\<close>

record loop_state =
  st_index :: int
  st_prevLayer :: "int list"
  st_pathIndices :: "int list"
  st_siblings :: "int option list"

text \<open>
  One pass of the body of \<^verbatim>\<open>for (let i = 0; i < TREE_DEPTH; i++)\<close>. The number
  \<^verbatim>\<open>index\<close> is an integer, of either sign; \<^verbatim>\<open>Math.floor(index / 2)\<close> is \<open>div\<close> on
  \<open>int\<close>, which rounds down. The loop only runs for \<open>i < TREE_DEPTH\<close>, where
  \<^verbatim>\<open>ZEROS[i]\<close> is inside the table.
\<close>

definition level_step :: "hashFn \<Rightarrow> nat \<Rightarrow> loop_state \<Rightarrow> loop_state" where
  "level_step poseidon i st =
     (let index = st_index st;
          prevLayer = st_prevLayer st;
          bit = js_rem index 2;
          siblingIndex = (if bit = 0 then index + 1 else index - 1);
          sibling = (if siblingIndex = int (length prevLayer) then Some (ZEROS ! i)
                     else js_at prevLayer siblingIndex)
      in \<lparr>st_index = index div 2,
          st_prevLayer = nextLayer_loop poseidon (ZEROS ! i) prevLayer 0 [],
          st_pathIndices = st_pathIndices st @ [bit],
          st_siblings = st_siblings st @ [sibling]\<rparr>)"

function merkle_loop :: "hashFn \<Rightarrow> nat \<Rightarrow> loop_state \<Rightarrow> loop_state" where
  "merkle_loop poseidon i st =
     (if i < TREE_DEPTH then merkle_loop poseidon (i + 1) (level_step poseidon i st) else st)"
  by pat_completeness auto
termination
  by (relation "measure (\<lambda>(poseidon, i, st). TREE_DEPTH - i)") auto

text \<open>
  \<^verbatim>\<open>generateMerkleProof(pubKeys, index, hashFn)\<close>. \<open>buildPoseidonReference\<close> is the default
  hash built when \<^verbatim>\<open>hashFn === undefined\<close>, and \<open>hashEdwardsPublicKey\<close> is the leaf hash of
  \<^verbatim>\<open>./utils\<close>; both live outside the given sources and are parameters. The promise the
  function returns is the result type; no statement of the body rejects it.
\<close>

definition generateMerkleProof ::
  "hashFn \<Rightarrow> ('k \<Rightarrow> int) \<Rightarrow> 'k list \<Rightarrow> int \<Rightarrow> hashFn option \<Rightarrow> 'e error + MerkleProof" where
  "generateMerkleProof buildPoseidonReference hashEdwardsPublicKey pubKeys index hashFn =
     (let poseidon = (case hashFn of None \<Rightarrow> buildPoseidonReference | Some h \<Rightarrow> h);
          leaves = map hashEdwardsPublicKey pubKeys;
          final = merkle_loop poseidon 0
                    \<lparr>st_index = index, st_prevLayer = leaves, st_pathIndices = [], st_siblings = []\<rparr>
      in Inr \<lparr>root = js_at (st_prevLayer final) 0,
              pathIndices = st_pathIndices final,
              siblings = st_siblings final\<rparr>)"

text \<open>\<^verbatim>\<open>computeMerkleRoot(pubKeys, hashFn)\<close>: the root of the proof for index 0.\<close>

definition computeMerkleRoot ::
  "hashFn \<Rightarrow> ('k \<Rightarrow> int) \<Rightarrow> 'k list \<Rightarrow> hashFn option \<Rightarrow> 'e error + int option" where
  "computeMerkleRoot buildPoseidonReference hashEdwardsPublicKey pubKeys hashFn =
     (case generateMerkleProof buildPoseidonReference hashEdwardsPublicKey pubKeys 0 hashFn of
        Inl e \<Rightarrow> Inl e
      | Inr p \<Rightarrow> Inr (root p))"

text \<open>
  The inner loop pairs consecutive elements of the layer. The same layer, written by
  recursion on the list, is what the proofs below reason about.
\<close>

fun pair_up :: "hashFn \<Rightarrow> int \<Rightarrow> int list \<Rightarrow> int list" where
  "pair_up h z [] = []"
| "pair_up h z [a] = [h a z]"
| "pair_up h z (a # b # xs) = h a b # pair_up h z xs"

text \<open>
  Recomputing a root from a leaf, as the specification words it: at each level the running
  value is hashed with the sibling of that level, on the left when the path bit is 0 and on
  the right when it is 1. An absent sibling or a path entry other than 0 and 1 gives no value.
\<close>

fun fold_path :: "hashFn \<Rightarrow> int \<Rightarrow> int list \<Rightarrow> int option list \<Rightarrow> int option" where
  "fold_path h cur [] [] = Some cur"
| "fold_path h cur (b # bs) (s # ss) =
     (case s of
        None \<Rightarrow> None
      | Some v \<Rightarrow>
          if b = 0 then fold_path h (h cur v) bs ss
          else if b = 1 then fold_path h (h v cur) bs ss
          else None)"
| "fold_path h cur bs ss = None"

section \<open>The signature input deriver\<close>

text \<open>
  \<^verbatim>\<open>getPublicInputsFromSignature\<close> works through collaborators that are not part of the given
  sources: the two \<^verbatim>\<open>ZqField\<close> instances \<^verbatim>\<open>Fb\<close> and \<^verbatim>\<open>Fs\<close>, the curve object
  \<^verbatim>\<open>babyjubjub.ec\<close>, and the class \<^verbatim>\<open>WeierstrassPoint\<close> of \<^verbatim>\<open>./babyJubjub\<close>. They are
  parameters of the model: records of the operations the function calls. An operation the
  function calls inside \<^verbatim>\<open>try\<close>, and the operations that can reject their argument
  (inversion, conversion to Edwards form), return a sum whose left summand is the exception.
\<close>

record 'e ZqField =
  zq_p :: int
  zq_add :: "int \<Rightarrow> int \<Rightarrow> int"
  zq_mul :: "int \<Rightarrow> int \<Rightarrow> int"
  zq_neg :: "int \<Rightarrow> int"
  zq_inv :: "int \<Rightarrow> 'e + int"

text \<open>
  \<^verbatim>\<open>ec.curve.pointFromX\<close>, \<^verbatim>\<open>ec.curve.g\<close>, and the methods \<^verbatim>\<open>mul\<close> and \<^verbatim>\<open>add\<close> of the
  library's points.
\<close>

record ('pt, 'e) EllipticCurve =
  pointFromX :: "int \<Rightarrow> int \<Rightarrow> 'e + 'pt"
  curve_g :: 'pt
  point_mul :: "'pt \<Rightarrow> int \<Rightarrow> 'pt"
  point_add :: "'pt \<Rightarrow> 'pt \<Rightarrow> 'pt"

text \<open>\<^verbatim>\<open>type BabyJubJub = { ec: any; Fb: ZqField; Fs: ZqField; cofactor: number }\<close>.\<close>

record ('pt, 'e) BabyJubJub =
  ec :: "('pt, 'e) EllipticCurve"
  Fb :: "'e ZqField"
  Fs :: "'e ZqField"
  cofactor :: int

text \<open>
  The members of \<^verbatim>\<open>WeierstrassPoint\<close> the function uses: the static
  \<^verbatim>\<open>fromEllipticPoint\<close>, and the methods \<^verbatim>\<open>equals\<close> and \<^verbatim>\<open>toEdwards\<close>. \<open>'w\<close> is the type
  of Weierstrass points and \<open>'ed\<close> the type of Edwards points.
\<close>

record ('pt, 'w, 'ed, 'e) WeierstrassPoint =
  fromEllipticPoint :: "'pt \<Rightarrow> 'w"
  equals :: "'w \<Rightarrow> 'w \<Rightarrow> bool"
  toEdwards :: "'w \<Rightarrow> 'e + 'ed"

text \<open>\<^verbatim>\<open>type Signature = { r: bigint; s: bigint }\<close>.\<close>

record Signature =
  sig_r :: int
  sig_s :: int

text \<open>The returned object \<^verbatim>\<open>{ R, T, U }\<close>.\<close>

record 'ed PublicInputs =
  inp_R :: 'ed
  inp_T :: 'ed
  inp_U :: 'ed

text \<open>How one pass of a loop body ends: \<^verbatim>\<open>continue\<close> (or falling through), \<^verbatim>\<open>return\<close>, or an exception.\<close>

datatype ('a, 'e) outcome = Continue | Return 'a | Throw 'e

text \<open>\<^verbatim>\<open>const r = Fb.add(sig.r, Fb.mul(BigInt(i), Fs.p))\<close>.\<close>

definition candidate_x :: "('pt, 'e) BabyJubJub \<Rightarrow> Signature \<Rightarrow> int \<Rightarrow> int" where
  "candidate_x babyjubjub sig i =
     zq_add (Fb babyjubjub) (sig_r sig) (zq_mul (Fb babyjubjub) i (zq_p (Fs babyjubjub)))"

text \<open>
  The body of the inner loop for one \<open>i\<close> and one \<open>parity\<close>. \<^verbatim>\<open>Fs.inv(r)\<close> stands before the
  \<^verbatim>\<open>try\<close>, so its exception leaves the function; the \<^verbatim>\<open>catch\<close> around \<^verbatim>\<open>pointFromX\<close>
  discards the exception and continues; the three \<^verbatim>\<open>toEdwards\<close> calls of the returned object
  run in the order R, T, U.
\<close>

definition loop_body ::
  "('pt, 'e) BabyJubJub \<Rightarrow> ('pt, 'w, 'ed, 'e) WeierstrassPoint \<Rightarrow> Signature \<Rightarrow> int \<Rightarrow> 'w \<Rightarrow>
   int \<Rightarrow> int \<Rightarrow> ('ed PublicInputs, 'e error) outcome" where
  "loop_body babyjubjub wp sig msgHash pubKey i parity =
     (let r = candidate_x babyjubjub sig i in
      case zq_inv (Fs babyjubjub) r of
        Inl e \<Rightarrow> Throw (Propagated e)
      | Inr rInv \<Rightarrow>
          (case pointFromX (ec babyjubjub) r parity of
             Inl e \<Rightarrow> Continue
           | Inr ecR \<Rightarrow>
               (let ecT = point_mul (ec babyjubjub) ecR rInv;
                    T = fromEllipticPoint wp ecT;
                    G = curve_g (ec babyjubjub);
                    rInvm = zq_neg (Fs babyjubjub) (zq_mul (Fs babyjubjub) rInv msgHash);
                    ecU = point_mul (ec babyjubjub) G rInvm;
                    U = fromEllipticPoint wp ecU;
                    sT = point_mul (ec babyjubjub) ecT (sig_s sig);
                    ecsTU = point_add (ec babyjubjub) sT ecU;
                    sTU = fromEllipticPoint wp ecsTU
                in if equals wp sTU pubKey then
                     (let R = fromEllipticPoint wp ecR in
                      case toEdwards wp R of
                        Inl e \<Rightarrow> Throw (Propagated e)
                      | Inr eR \<Rightarrow>
                          (case toEdwards wp T of
                             Inl e \<Rightarrow> Throw (Propagated e)
                           | Inr eT \<Rightarrow>
                               (case toEdwards wp U of
                                  Inl e \<Rightarrow> Throw (Propagated e)
                                | Inr eU \<Rightarrow> Return \<lparr>inp_R = eR, inp_T = eT, inp_U = eU\<rparr>)))
                   else Continue)))"

text \<open>\<^verbatim>\<open>for (const parity of [0, 1])\<close>, over the list it is given.\<close>

fun parity_loop ::
  "('pt, 'e) BabyJubJub \<Rightarrow> ('pt, 'w, 'ed, 'e) WeierstrassPoint \<Rightarrow> Signature \<Rightarrow> int \<Rightarrow> 'w \<Rightarrow>
   int \<Rightarrow> int list \<Rightarrow> ('ed PublicInputs, 'e error) outcome" where
  "parity_loop babyjubjub wp sig msgHash pubKey i [] = Continue"
| "parity_loop babyjubjub wp sig msgHash pubKey i (parity # rest) =
     (case loop_body babyjubjub wp sig msgHash pubKey i parity of
        Continue \<Rightarrow> parity_loop babyjubjub wp sig msgHash pubKey i rest
      | Return out \<Rightarrow> Return out
      | Throw e \<Rightarrow> Throw e)"

text \<open>
  \<^verbatim>\<open>for (let i = 0; i < babyjubjub.cofactor; i++)\<close>, followed by the final
  \<^verbatim>\<open>throw new Error("Could not find valid public inputs")\<close>.
\<close>

function cofactor_loop ::
  "('pt, 'e) BabyJubJub \<Rightarrow> ('pt, 'w, 'ed, 'e) WeierstrassPoint \<Rightarrow> Signature \<Rightarrow> int \<Rightarrow> 'w \<Rightarrow>
   int \<Rightarrow> 'e error + 'ed PublicInputs" where
  "cofactor_loop babyjubjub wp sig msgHash pubKey i =
     (if i < cofactor babyjubjub then
        (case parity_loop babyjubjub wp sig msgHash pubKey i [0, 1] of
           Continue \<Rightarrow> cofactor_loop babyjubjub wp sig msgHash pubKey (i + 1)
         | Return out \<Rightarrow> Inr out
         | Throw e \<Rightarrow> Inl e)
      else Inl NoValidCandidateFound)"
  by pat_completeness auto
termination
  by (relation "measure (\<lambda>(babyjubjub, wp, sig, msgHash, pubKey, i). nat (cofactor babyjubjub - i))")
    auto

definition getPublicInputsFromSignature ::
  "('pt, 'e) BabyJubJub \<Rightarrow> ('pt, 'w, 'ed, 'e) WeierstrassPoint \<Rightarrow> Signature \<Rightarrow> int \<Rightarrow> 'w \<Rightarrow>
   'e error + 'ed PublicInputs" where
  "getPublicInputsFromSignature babyjubjub wp sig msgHash pubKey =
     cofactor_loop babyjubjub wp sig msgHash pubKey 0"

subsection \<open>The enumeration as the specification words it\<close>

text \<open>
  The candidates in the order of the specification: \<open>i\<close> ascending from 0 to the cofactor
  minus one, and for each \<open>i\<close> parity 0, then parity 1.
\<close>

definition candidates :: "int \<Rightarrow> (int \<times> int) list" where
  "candidates h = concat (map (\<lambda>i. [(i, 0), (i, 1)]) [0..h - 1])"

text \<open>
  The body of the source run over a list of candidates: the first candidate at which the body
  does not continue decides the result. The proofs relate the nested loops to the
  specification through it.
\<close>

fun body_search ::
  "('pt, 'e) BabyJubJub \<Rightarrow> ('pt, 'w, 'ed, 'e) WeierstrassPoint \<Rightarrow> Signature \<Rightarrow> int \<Rightarrow> 'w \<Rightarrow>
   (int \<times> int) list \<Rightarrow> 'e error + 'ed PublicInputs" where
  "body_search babyjubjub wp sig msgHash pubKey [] = Inl NoValidCandidateFound"
| "body_search babyjubjub wp sig msgHash pubKey ((i, parity) # cs) =
     (case loop_body babyjubjub wp sig msgHash pubKey i parity of
        Continue \<Rightarrow> body_search babyjubjub wp sig msgHash pubKey cs
      | Return out \<Rightarrow> Inr out
      | Throw e \<Rightarrow> Inl e)"

text \<open>The check point \<open>s\<cdot>T + U\<close> of a recovered point \<open>ecR\<close> and an inverse \<open>rInv\<close>.\<close>

definition check_point ::
  "('pt, 'e) BabyJubJub \<Rightarrow> Signature \<Rightarrow> int \<Rightarrow> 'pt \<Rightarrow> int \<Rightarrow> 'pt" where
  "check_point babyjubjub sig msgHash ecR rInv =
     point_add (ec babyjubjub)
       (point_mul (ec babyjubjub) (point_mul (ec babyjubjub) ecR rInv) (sig_s sig))
       (point_mul (ec babyjubjub) (curve_g (ec babyjubjub))
          (zq_neg (Fs babyjubjub) (zq_mul (Fs babyjubjub) rInv msgHash)))"

text \<open>
  A candidate satisfies the verification check when its x-coordinate can be inverted in the
  order field, a curve point with that x-coordinate and parity exists, and the check point
  equals the public key.
\<close>

definition satisfies_check ::
  "('pt, 'e) BabyJubJub \<Rightarrow> ('pt, 'w, 'ed, 'e) WeierstrassPoint \<Rightarrow> Signature \<Rightarrow> int \<Rightarrow> 'w \<Rightarrow>
   int \<Rightarrow> int \<Rightarrow> bool" where
  "satisfies_check babyjubjub wp sig msgHash pubKey i parity =
     (case zq_inv (Fs babyjubjub) (candidate_x babyjubjub sig i) of
        Inl e \<Rightarrow> False
      | Inr rInv \<Rightarrow>
          (case pointFromX (ec babyjubjub) (candidate_x babyjubjub sig i) parity of
             Inl e \<Rightarrow> False
           | Inr ecR \<Rightarrow>
               equals wp (fromEllipticPoint wp (check_point babyjubjub sig msgHash ecR rInv))
                 pubKey))"

definition no_candidate_satisfies ::
  "('pt, 'e) BabyJubJub \<Rightarrow> ('pt, 'w, 'ed, 'e) WeierstrassPoint \<Rightarrow> Signature \<Rightarrow> int \<Rightarrow> 'w \<Rightarrow> bool" where
  "no_candidate_satisfies babyjubjub wp sig msgHash pubKey =
     list_all (\<lambda>(i, parity). \<not> satisfies_check babyjubjub wp sig msgHash pubKey i parity)
       (candidates (cofactor babyjubjub))"

definition inversion_succeeds :: "('pt, 'e) BabyJubJub \<Rightarrow> Signature \<Rightarrow> int \<Rightarrow> bool" where
  "inversion_succeeds babyjubjub sig i =
     (case zq_inv (Fs babyjubjub) (candidate_x babyjubjub sig i) of
        Inl e \<Rightarrow> False
      | Inr rInv \<Rightarrow> True)"

definition all_inversions_succeed :: "('pt, 'e) BabyJubJub \<Rightarrow> Signature \<Rightarrow> bool" where
  "all_inversions_succeed babyjubjub sig =
     list_all (\<lambda>(i, parity). inversion_succeeds babyjubjub sig i) (candidates (cofactor babyjubjub))"



text \<open>
  The returned points as the specification states them at one candidate, with \<open>r\<^sup>-\<^sup>1\<close> the
  inverse of the signature's own \<open>r\<close> in the order field: a curve point \<open>ecR\<close> exists for the
  candidate, the returned \<open>T\<close> and \<open>U\<close> are the Edwards forms of \<open>ecR \<cdot> r\<^sup>-\<^sup>1\<close> and
  \<open>G \<cdot> (- r\<^sup>-\<^sup>1 \<cdot> msgHash)\<close>, and \<open>s \<cdot> T + U\<close> equals the public key.
\<close>

definition outputs_from_signature_r ::
  "('pt, 'e) BabyJubJub \<Rightarrow> ('pt, 'w, 'ed, 'e) WeierstrassPoint \<Rightarrow> Signature \<Rightarrow> int \<Rightarrow> 'w \<Rightarrow>
   'ed PublicInputs \<Rightarrow> int \<Rightarrow> int \<Rightarrow> bool" where
  "outputs_from_signature_r babyjubjub wp sig msgHash pubKey out i parity =
     (case zq_inv (Fs babyjubjub) (sig_r sig) of
        Inl e \<Rightarrow> False
      | Inr rInv \<Rightarrow>
          (case pointFromX (ec babyjubjub) (candidate_x babyjubjub sig i) parity of
             Inl e \<Rightarrow> False
           | Inr ecR \<Rightarrow>
               toEdwards wp (fromEllipticPoint wp (point_mul (ec babyjubjub) ecR rInv))
                 = Inr (inp_T out) \<and>
               toEdwards wp (fromEllipticPoint wp
                  (point_mul (ec babyjubjub) (curve_g (ec babyjubjub))
                     (zq_neg (Fs babyjubjub) (zq_mul (Fs babyjubjub) rInv msgHash))))
                 = Inr (inp_U out) \<and>
               equals wp (fromEllipticPoint wp (check_point babyjubjub sig msgHash ecR rInv))
                 pubKey))"

section \<open>A small instance of the collaborators\<close>

text \<open>
  The theorems below hold for all collaborators. To show that their hypotheses can be met,
  they are also applied to a small instance: a two-to-one hash into the integers modulo 97,
  prime fields, and the curve \<open>y\<^sup>2 = x\<^sup>3 + x + 1\<close> over the integers modulo 11, whose group
  has order \<open>14 = 2 \<cdot> 7\<close>.
\<close>

definition toy_poseidon :: hashFn where
  "toy_poseidon a b = (3 * a + 5 * b + 1) mod 97"

fun toy_hashEdwardsPublicKey :: "int \<times> int \<Rightarrow> int" where
  "toy_hashEdwardsPublicKey (x, y) = toy_poseidon x y"

datatype lib_error = DivisionByZero | InvalidPoint | ConversionError

text \<open>
  The fields of the small instance: integers modulo a prime \<open>p\<close> with modular add, multiply,
  negate and inverse (by Fermat's little theorem), and inversion of zero an error, as the
  specification describes the field collaborator.
\<close>

definition ZqField_mod :: "int \<Rightarrow> lib_error ZqField" where
  "ZqField_mod p =
     \<lparr>zq_p = p,
      zq_add = (\<lambda>a b. (a + b) mod p),
      zq_mul = (\<lambda>a b. (a * b) mod p),
      zq_neg = (\<lambda>a. (- a) mod p),
      zq_inv = (\<lambda>a. if a mod p = 0 then Inl DivisionByZero else Inr (a ^ nat (p - 2) mod p))\<rparr>"

text \<open>Points of the small curve; \<open>None\<close> is the point at infinity.\<close>

type_synonym toy_point = "(int \<times> int) option"

definition toy_point_add :: "toy_point \<Rightarrow> toy_point \<Rightarrow> toy_point" where
  "toy_point_add P Q =
     (case P of
        None \<Rightarrow> Q
      | Some (x1, y1) \<Rightarrow>
          (case Q of
             None \<Rightarrow> P
           | Some (x2, y2) \<Rightarrow>
               if x1 = x2 \<and> (y1 + y2) mod 11 = 0 then None
               else
                 (let l = (if x1 = x2 then (3 * x1 * x1 + 1) * ((2 * y1) ^ 9 mod 11)
                           else (y2 - y1) * (((x2 - x1) mod 11) ^ 9 mod 11)) mod 11;
                      x3 = (l * l - x1 - x2) mod 11
                  in Some (x3, (l * (x1 - x3) - y1) mod 11))))"

fun toy_point_mul_nat :: "toy_point \<Rightarrow> nat \<Rightarrow> toy_point" where
  "toy_point_mul_nat P 0 = None"
| "toy_point_mul_nat P (Suc k) = toy_point_add P (toy_point_mul_nat P k)"

definition toy_pointFromX :: "int \<Rightarrow> int \<Rightarrow> lib_error + toy_point" where
  "toy_pointFromX x parity =
     (case find (\<lambda>y. (y * y) mod 11 = (x * x * x + x + 1) mod 11) [0..10] of
        None \<Rightarrow> Inl InvalidPoint
      | Some y \<Rightarrow> Inr (Some (x mod 11, if y mod 2 = parity mod 2 then y else (11 - y) mod 11)))"

definition toy_babyjubjub :: "(toy_point, lib_error) BabyJubJub" where
  "toy_babyjubjub =
     \<lparr>ec = \<lparr>pointFromX = toy_pointFromX,
            curve_g = Some (0, 1),
            point_mul = (\<lambda>P k. toy_point_mul_nat P (nat k)),
            point_add = toy_point_add\<rparr>,
      Fb = ZqField_mod 11,
      Fs = ZqField_mod 7,
      cofactor = 2\<rparr>"

text \<open>
  A stand-in for the point class: Weierstrass points are the curve points themselves,
  equality is equality of coordinates, and the conversion keeps the coordinates and rejects
  the point at infinity.
\<close>

definition toy_WeierstrassPoint :: "(toy_point, toy_point, int \<times> int, lib_error) WeierstrassPoint" where
  "toy_WeierstrassPoint =
     \<lparr>fromEllipticPoint = (\<lambda>P. P),
      equals = (\<lambda>P Q. P = Q),
      toEdwards = (\<lambda>P. case P of None \<Rightarrow> Inl ConversionError | Some xy \<Rightarrow> Inr xy)\<rparr>"

section \<open>Properties of the Merkle accumulator\<close>

declare nextLayer_loop.simps [simp del] merkle_loop.simps [simp del] cofactor_loop.simps [simp del]



lemma nextLayer_loop_pair_up:
  "nextLayer_loop h z xs j acc = acc @ pair_up h z (drop j xs)"
proof (induction h z xs j acc rule: nextLayer_loop.induct)
  case (1 h z xs j acc)
  show ?case
  proof (cases "j < length xs")
    case False
    then show ?thesis by (subst nextLayer_loop.simps) simp
  next
    case True
    note j = True
    show ?thesis
    proof (cases "j + 1 = length xs")
      case True
      then have d: "drop j xs = [xs ! j]"
        using j by (metis Cons_nth_drop_Suc Suc_eq_plus1 drop_all order_refl)
      have d2: "drop (j + 2) xs = []" using True by simp
      show ?thesis
        using "1.IH"[OF j refl refl] j True d d2 
        by (subst nextLayer_loop.simps) (simp add: Let_def)
    next
      case False
      then have j1: "Suc j < length xs" using j by simp
      have d: "drop j xs = xs ! j # xs ! (j + 1) # drop (j + 2) xs"
        using j j1 by (simp add: Cons_nth_drop_Suc)
      show ?thesis
        using "1.IH"[OF j refl refl] j False d
        by (subst nextLayer_loop.simps) (simp add: Let_def)
    qed
  qed
qed

lemma length_pair_up: "length (pair_up h z xs) = (length xs + 1) div 2"
  by (induction h z xs rule: pair_up.induct) simp_all

lemma nth_pair_up:
  "k < length (pair_up h z xs) \<Longrightarrow>
   pair_up h z xs ! k = h (xs ! (2 * k)) (if 2 * k + 1 = length xs then z else xs ! (2 * k + 1))"
proof (induction h z xs arbitrary: k rule: pair_up.induct)
  case (1 h z)
  then show ?case by simp
next
  case (2 h z a)
  then show ?case by simp
next
  case (3 h z a b xs)
  then show ?case by (cases k) simp_all
qed


lemma js_rem_nat2: "js_rem (int k) 2 = int (k mod 2)"
  by (cases "k = 0") (simp_all add: js_rem_def zmod_int)

lemma js_at_nat: "k < length xs \<Longrightarrow> js_at xs (int k) = Some (xs ! k)"
  by (simp add: js_at_def)

lemma level_step_index: "st_index (level_step h i st) = st_index st div 2"
  by (simp add: level_step_def Let_def)

lemma level_step_prevLayer:
  "st_prevLayer (level_step h i st) = pair_up h (ZEROS ! i) (st_prevLayer st)"
  by (simp add: level_step_def Let_def nextLayer_loop_pair_up)

lemma level_step_pathIndices:
  "st_pathIndices (level_step h i st) = st_pathIndices st @ [js_rem (st_index st) 2]"
  by (simp add: level_step_def Let_def)

lemma level_step_siblings:
  "st_siblings (level_step h i st) = st_siblings st @
     [let siblingIndex = (if js_rem (st_index st) 2 = 0 then st_index st + 1 else st_index st - 1)
      in if siblingIndex = int (length (st_prevLayer st)) then Some (ZEROS ! i)
         else js_at (st_prevLayer st) siblingIndex]"
  by (simp add: level_step_def Let_def)

lemma merkle_loop_step: "i < TREE_DEPTH \<Longrightarrow> merkle_loop h i st = merkle_loop h (Suc i) (level_step h i st)"
  by (subst merkle_loop.simps) simp

lemma merkle_loop_done: "\<not> i < TREE_DEPTH \<Longrightarrow> merkle_loop h i st = st"
  by (subst merkle_loop.simps) simp

lemma level_step_path:
  assumes idx: "st_index st = int k" and k: "k < length (st_prevLayer st)"
  shows "\<exists>bit sib.
           st_pathIndices (level_step h i st) = st_pathIndices st @ [bit] \<and>
           st_siblings (level_step h i st) = st_siblings st @ [sib] \<and>
           st_index (level_step h i st) = int (k div 2) \<and>
           k div 2 < length (st_prevLayer (level_step h i st)) \<and>
           (\<forall>bs ss. fold_path h (st_prevLayer st ! k) (bit # bs) (sib # ss) =
                    fold_path h (st_prevLayer (level_step h i st) ! (k div 2)) bs ss)"
proof -
  let ?xs = "st_prevLayer st"
  let ?z = "ZEROS ! i"
  have len: "k div 2 < length (pair_up h ?z ?xs)"
    using k by (simp add: length_pair_up)
  have nth: "pair_up h ?z ?xs ! (k div 2) =
      h (?xs ! (2 * (k div 2))) (if 2 * (k div 2) + 1 = length ?xs then ?z else ?xs ! (2 * (k div 2) + 1))"
    by (rule nth_pair_up[OF len])
  have i2: "st_index (level_step h i st) = int (k div 2)"
    by (simp add: level_step_index idx zdiv_int)
  show ?thesis
  proof (cases "even k")
    case True
    then have k2: "2 * (k div 2) = k" by simp
    have bit: "js_rem (st_index st) 2 = 0"
      using True by (simp add: idx js_rem_nat2)
    show ?thesis
    proof (cases "k + 1 = length ?xs")
      case True
      have sib: "st_siblings (level_step h i st) = st_siblings st @ [Some ?z]"
        using True bit by (simp add: level_step_siblings idx Let_def) 
      show ?thesis
        using bit sib i2 len nth True k2
        by (simp add: level_step_pathIndices level_step_prevLayer)
    next
      case False
      then have k1: "k + 1 < length ?xs" using k by simp
      have "js_at ?xs (int k + 1) = Some (?xs ! (k + 1))"
        using js_at_nat[OF k1] by (simp add: add.commute)
      then have sib: "st_siblings (level_step h i st) = st_siblings st @ [Some (?xs ! (k + 1))]"
        using False bit by (simp add: level_step_siblings idx Let_def) 
      show ?thesis
        using bit sib i2 len nth False k2
        by (simp add: level_step_pathIndices level_step_prevLayer)
    qed
  next
    case False
    then have k2: "2 * (k div 2) = k - 1" and kpos: "0 < k" 
      by (auto elim: oddE)
    have k2': "2 * (k div 2) + 1 = k" using False by simp
    have bit: "js_rem (st_index st) 2 = 1"
      using False by (simp add: idx js_rem_nat2 odd_iff_mod_2_eq_one)
    have "int k - 1 = int (k - 1)" using kpos by simp
    moreover have "k - 1 < length ?xs" using k by simp
    ultimately have "js_at ?xs (int k - 1) = Some (?xs ! (k - 1))"
      using js_at_nat by metis
    moreover have "int k - 1 \<noteq> int (length ?xs)" using k by simp
    ultimately have sib: "st_siblings (level_step h i st) = st_siblings st @ [Some (?xs ! (k - 1))]"
      using bit by (simp add: level_step_siblings idx Let_def) 
    have nth': "pair_up h ?z ?xs ! (k div 2) = h (?xs ! (k - 1)) (?xs ! k)"
      using nth k k2 k2' by simp
    show ?thesis
      using bit sib i2 len nth' 
      by (simp add: level_step_pathIndices level_step_prevLayer)
  qed
qed

lemma merkle_loop_path:
  "st_index st = int k \<Longrightarrow> k < length (st_prevLayer st) \<Longrightarrow>
   \<exists>bits sibs.
     st_pathIndices (merkle_loop h i st) = st_pathIndices st @ bits \<and>
     st_siblings (merkle_loop h i st) = st_siblings st @ sibs \<and>
     k div 2 ^ (TREE_DEPTH - i) < length (st_prevLayer (merkle_loop h i st)) \<and>
     fold_path h (st_prevLayer st ! k) bits sibs =
       Some (st_prevLayer (merkle_loop h i st) ! (k div 2 ^ (TREE_DEPTH - i)))"
proof (induction h i st arbitrary: k rule: merkle_loop.induct)
  case (1 h i st)
  show ?case
  proof (cases "i < TREE_DEPTH")
    case False
    then have "merkle_loop h i st = st" by (rule merkle_loop_done)
    moreover have "TREE_DEPTH - i = 0" using False by simp
    ultimately show ?thesis using "1.prems" 
      by (intro exI[of _ "[]"]) simp
  next
    case True
    obtain bit sib where
      pi: "st_pathIndices (level_step h i st) = st_pathIndices st @ [bit]" and
      sb: "st_siblings (level_step h i st) = st_siblings st @ [sib]" and
      ix: "st_index (level_step h i st) = int (k div 2)" and
      ln: "k div 2 < length (st_prevLayer (level_step h i st))" and
      fp: "\<And>bs ss. fold_path h (st_prevLayer st ! k) (bit # bs) (sib # ss) =
                    fold_path h (st_prevLayer (level_step h i st) ! (k div 2)) bs ss"
      using level_step_path[OF "1.prems", of h i] by blast
    obtain bits sibs where
      a: "st_pathIndices (merkle_loop h (i + 1) (level_step h i st)) = st_pathIndices (level_step h i st) @ bits" and
      b: "st_siblings (merkle_loop h (i + 1) (level_step h i st)) = st_siblings (level_step h i st) @ sibs" and
      c: "k div 2 div 2 ^ (TREE_DEPTH - (i + 1)) < length (st_prevLayer (merkle_loop h (i + 1) (level_step h i st)))" and
      d: "fold_path h (st_prevLayer (level_step h i st) ! (k div 2)) bits sibs =
            Some (st_prevLayer (merkle_loop h (i + 1) (level_step h i st)) ! (k div 2 div 2 ^ (TREE_DEPTH - (i + 1))))"
      using "1.IH"[OF True ix ln] by blast
    have ml: "merkle_loop h i st = merkle_loop h (i + 1) (level_step h i st)"
      using merkle_loop_step[OF True] by simp
    have "TREE_DEPTH - i = Suc (TREE_DEPTH - (i + 1))" using True by simp
    then have dv: "k div 2 ^ (TREE_DEPTH - i) = k div 2 div 2 ^ (TREE_DEPTH - (i + 1))"
      by (simp add: div_mult2_eq)
    show ?thesis
      unfolding ml dv
      using a b c d fp[of bits sibs] pi sb
      by (intro exI[of _ "bit # bits"] exI[of _ "sib # sibs"]) simp
  qed
qed

lemma length_ZEROS: "length ZEROS = TREE_DEPTH"
  by (simp add: ZEROS_def TREE_DEPTH_def)

lemma replicate_TREE_DEPTH: "replicate TREE_DEPTH x = [x, x, x, x, x, x, x, x]"
  by (simp add: TREE_DEPTH_def eval_nat_numeral)

lemma merkle_loop_lengths:
  "length (st_pathIndices (merkle_loop h i st)) = length (st_pathIndices st) + (TREE_DEPTH - i) \<and>
   length (st_siblings (merkle_loop h i st)) = length (st_siblings st) + (TREE_DEPTH - i)"
proof (induction h i st rule: merkle_loop.induct)
  case (1 h i st)
  show ?case
  proof (cases "i < TREE_DEPTH")
    case True
    then show ?thesis
      using "1.IH"[OF True] merkle_loop_step[OF True, of h st]
      by (auto simp: level_step_pathIndices level_step_siblings)
  next
    case False
    then show ?thesis by (simp add: merkle_loop_done)
  qed
qed

lemma merkle_loop_prevLayer_indep:
  "st_prevLayer st = st_prevLayer st' \<Longrightarrow>
   st_prevLayer (merkle_loop h i st) = st_prevLayer (merkle_loop h i st')"
proof (induction h i st arbitrary: st' rule: merkle_loop.induct)
  case (1 h i st)
  show ?case
  proof (cases "i < TREE_DEPTH")
    case True
    have "st_prevLayer (level_step h i st) = st_prevLayer (level_step h i st')"
      using "1.prems" by (simp add: level_step_prevLayer)
    then show ?thesis
      using "1.IH"[OF True] merkle_loop_step[OF True] by simp
  next
    case False
    then show ?thesis using "1.prems" by (simp add: merkle_loop_done)
  qed
qed

lemma level_step_neg1:
  "st_index st = - 1 \<Longrightarrow>
   st_index (level_step h i st) = - 1 \<and>
   st_pathIndices (level_step h i st) = st_pathIndices st @ [- 1] \<and>
   st_siblings (level_step h i st) = st_siblings st @ [None]"
  by (simp add: level_step_def Let_def js_rem_def js_at_def)

lemma merkle_loop_neg1:
  "st_index st = - 1 \<Longrightarrow>
   st_pathIndices (merkle_loop h i st) = st_pathIndices st @ replicate (TREE_DEPTH - i) (- 1) \<and>
   st_siblings (merkle_loop h i st) = st_siblings st @ replicate (TREE_DEPTH - i) None"
proof (induction h i st rule: merkle_loop.induct)
  case (1 h i st)
  show ?case
  proof (cases "i < TREE_DEPTH")
    case True
    have r: "TREE_DEPTH - i = Suc (TREE_DEPTH - (i + 1))" using True by simp
    show ?thesis
      using "1.IH"[OF True] level_step_neg1[OF "1.prems", of h i] merkle_loop_step[OF True, of h st]
      by (simp add: r)
  next
    case False
    then show ?thesis by (simp add: merkle_loop_done)
  qed
qed

lemma level_step_empty:
  "st_index st = 0 \<Longrightarrow> st_prevLayer st = [] \<Longrightarrow>
   level_step h i st =
     \<lparr>st_index = 0, st_prevLayer = [],
      st_pathIndices = st_pathIndices st @ [0], st_siblings = st_siblings st @ [None]\<rparr>"
  by (simp add: level_step_def Let_def js_rem_def js_at_def nextLayer_loop_pair_up)

lemma merkle_loop_empty:
  "st_index st = 0 \<Longrightarrow> st_prevLayer st = [] \<Longrightarrow>
   merkle_loop h i st =
     \<lparr>st_index = 0, st_prevLayer = [],
      st_pathIndices = st_pathIndices st @ replicate (TREE_DEPTH - i) 0,
      st_siblings = st_siblings st @ replicate (TREE_DEPTH - i) None\<rparr>"
proof (induction h i st rule: merkle_loop.induct)
  case (1 h i st)
  show ?case
  proof (cases "i < TREE_DEPTH")
    case True
    have r: "TREE_DEPTH - i = Suc (TREE_DEPTH - (i + 1))" using True by simp
    have s: "level_step h i st =
     \<lparr>st_index = 0, st_prevLayer = [],
      st_pathIndices = st_pathIndices st @ [0], st_siblings = st_siblings st @ [None]\<rparr>"
      using "1.prems" by (rule level_step_empty)
    show ?thesis
      using "1.IH"[OF True] merkle_loop_step[OF True, of h st]
      by (simp add: r s)
  next
    case False
    then show ?thesis using "1.prems" by (simp add: merkle_loop_done)
  qed
qed

lemma level_step_single:
  "st_index st = 0 \<Longrightarrow> st_prevLayer st = [v] \<Longrightarrow>
   level_step h i st =
     \<lparr>st_index = 0, st_prevLayer = [h v (ZEROS ! i)],
      st_pathIndices = st_pathIndices st @ [0], st_siblings = st_siblings st @ [Some (ZEROS ! i)]\<rparr>"
  by (simp add: level_step_def Let_def js_rem_def js_at_def nextLayer_loop_pair_up)

lemma merkle_loop_single:
  "st_index st = 0 \<Longrightarrow> st_prevLayer st = [v] \<Longrightarrow>
   merkle_loop h i st =
     \<lparr>st_index = 0, st_prevLayer = [foldl h v (drop i ZEROS)],
      st_pathIndices = st_pathIndices st @ replicate (TREE_DEPTH - i) 0,
      st_siblings = st_siblings st @ map Some (drop i ZEROS)\<rparr>"
proof (induction h i st arbitrary: v rule: merkle_loop.induct)
  case (1 h i st)
  show ?case
  proof (cases "i < TREE_DEPTH")
    case True
    have r: "TREE_DEPTH - i = Suc (TREE_DEPTH - (i + 1))" using True by simp
    have d: "drop i ZEROS = ZEROS ! i # drop (i + 1) ZEROS"
      using True by (simp add: Cons_nth_drop_Suc length_ZEROS)
    have s: "level_step h i st =
     \<lparr>st_index = 0, st_prevLayer = [h v (ZEROS ! i)],
      st_pathIndices = st_pathIndices st @ [0], st_siblings = st_siblings st @ [Some (ZEROS ! i)]\<rparr>"
      using "1.prems" by (rule level_step_single)
    show ?thesis
      using "1.IH"[OF True, of "h v (ZEROS ! i)"] merkle_loop_step[OF True, of h st]
      by (simp add: r s d)
  next
    case False
    then show ?thesis using "1.prems" by (simp add: merkle_loop_done length_ZEROS)
  qed
qed

lemma generateMerkleProof_root:
  "generateMerkleProof bpr hk pubKeys idx hashFn =
     Inr \<lparr>root = js_at (st_prevLayer (merkle_loop (case hashFn of None \<Rightarrow> bpr | Some h \<Rightarrow> h) 0
                 \<lparr>st_index = 0, st_prevLayer = map hk pubKeys, st_pathIndices = [], st_siblings = []\<rparr>)) 0,
           pathIndices = st_pathIndices (merkle_loop (case hashFn of None \<Rightarrow> bpr | Some h \<Rightarrow> h) 0
                 \<lparr>st_index = idx, st_prevLayer = map hk pubKeys, st_pathIndices = [], st_siblings = []\<rparr>),
           siblings = st_siblings (merkle_loop (case hashFn of None \<Rightarrow> bpr | Some h \<Rightarrow> h) 0
                 \<lparr>st_index = idx, st_prevLayer = map hk pubKeys, st_pathIndices = [], st_siblings = []\<rparr>)\<rparr>"
proof -
  have "st_prevLayer (merkle_loop h 0 \<lparr>st_index = idx, st_prevLayer = map hk pubKeys, st_pathIndices = [], st_siblings = []\<rparr>)
      = st_prevLayer (merkle_loop h 0 \<lparr>st_index = 0, st_prevLayer = map hk pubKeys, st_pathIndices = [], st_siblings = []\<rparr>)" for h
    by (rule merkle_loop_prevLayer_indep) simp
  then show ?thesis
    by (simp add: generateMerkleProof_def Let_def)
qed

lemma generateMerkleProof_single_key:
  "ZEROS ! 0 = 0 \<and> length ZEROS = 8 \<and>
   generateMerkleProof bpr hk [key] 0 hashFn =
     Inr \<lparr>root = Some (foldl (case hashFn of None \<Rightarrow> bpr | Some h \<Rightarrow> h) (hk key) ZEROS),
          pathIndices = [0, 0, 0, 0, 0, 0, 0, 0],
          siblings = map Some ZEROS\<rparr>"
proof -
  have "ZEROS ! 0 = 0" "length ZEROS = 8" by (simp_all add: ZEROS_def)
  then show ?thesis
    by (simp add: generateMerkleProof_def Let_def merkle_loop_single js_at_def replicate_TREE_DEPTH)
qed

subsection \<open>Claims about the Merkle accumulator\<close>

text \<open>
  Claim C1 (proof validity). For every list of between 1 and 256 public keys and every index
  with \<open>0 \<le> index < length pubKeys\<close>, \<open>generateMerkleProof\<close> returns a proof with eight
  path entries and eight siblings such that, starting from the hashed leaf at that index and
  hashing the running value level by level with the sibling of the level (running value on
  the left when the path entry is 0, on the right when it is 1), the final value is the
  returned root, which is a field element. The hash is the one the call uses: the supplied
  \<open>hashFn\<close>, or the default when none is supplied.
\<close>

theorem generateMerkleProof_valid:
  assumes "1 \<le> length pubKeys" and "length pubKeys \<le> 256"
    and "0 \<le> index" and "index < int (length pubKeys)"
  shows "\<exists>p. generateMerkleProof bpr hk pubKeys index hashFn = Inr p \<and>
             length (pathIndices p) = 8 \<and> length (siblings p) = 8 \<and>
             root p \<noteq> None \<and>
             fold_path (case hashFn of None \<Rightarrow> bpr | Some h \<Rightarrow> h)
               (hk (pubKeys ! nat index)) (pathIndices p) (siblings p) = root p"
proof -
  let ?h = "case hashFn of None \<Rightarrow> bpr | Some h \<Rightarrow> h"
  let ?st = "\<lparr>st_index = index, st_prevLayer = map hk pubKeys, st_pathIndices = [], st_siblings = []\<rparr>"
  let ?final = "merkle_loop ?h 0 ?st"
  have index: "st_index ?st = int (nat index)" using assms by simp
  have k: "nat index < length (st_prevLayer ?st)" using assms by simp
  obtain bits sibs where
    a: "st_pathIndices ?final = st_pathIndices ?st @ bits" and
    b: "st_siblings ?final = st_siblings ?st @ sibs" and
    c: "nat index div 2 ^ (TREE_DEPTH - 0) < length (st_prevLayer ?final)" and
    d: "fold_path ?h (st_prevLayer ?st ! nat index) bits sibs =
          Some (st_prevLayer ?final ! (nat index div 2 ^ (TREE_DEPTH - 0)))"
    using merkle_loop_path[OF index k, of ?h 0] by blast
  have "nat index < 256" using assms by simp
  then have z: "nat index div 2 ^ (TREE_DEPTH - 0) = 0" by (simp add: TREE_DEPTH_def)
  have len: "0 < length (st_prevLayer ?final)" using c z by simp
  have rt: "js_at (st_prevLayer ?final) 0 = Some (st_prevLayer ?final ! 0)"
    using len by (simp add: js_at_def)
  have leaf: "st_prevLayer ?st ! nat index = hk (pubKeys ! nat index)" using k by simp
  have lens: "length (st_pathIndices ?final) = 8 \<and> length (st_siblings ?final) = 8"
    using merkle_loop_lengths[of ?h 0 ?st] by (simp add: TREE_DEPTH_def)
  show ?thesis
    using a b d z rt leaf lens
    by (simp add: generateMerkleProof_def Let_def)
qed

text \<open>
  The hypotheses of C1 at three keys and index 2, with the small hash.
\<close>

theorem generateMerkleProof_valid_witness:
  "\<exists>p. generateMerkleProof toy_poseidon toy_hashEdwardsPublicKey [(1, 2), (3, 4), (5, 6)] 2 None
          = (Inr p :: lib_error error + MerkleProof) \<and>
       length (pathIndices p) = 8 \<and> length (siblings p) = 8 \<and>
       root p \<noteq> None \<and>
       fold_path toy_poseidon (toy_hashEdwardsPublicKey (5, 6)) (pathIndices p) (siblings p) = root p"
  using generateMerkleProof_valid[of "[(1, 2), (3, 4), (5, 6)]" 2 toy_poseidon toy_hashEdwardsPublicKey None]
  by simp

text \<open>
  Claim C5 (out-of-range rejection), as the specification states it: for every key list,
  \<open>generateMerkleProof keys (length keys)\<close> and \<open>generateMerkleProof keys (-1)\<close> raise
  \<open>IndexOutOfRange\<close>. The source has no bounds check. For one key, index 1 returns a complete
  proof whose first sibling is the leaf itself, and index \<open>-1\<close> returns a proof whose path
  entries are all \<open>-1\<close> and whose siblings are all absent.
\<close>

theorem generateMerkleProof_out_of_range_counterexample:
  "generateMerkleProof toy_poseidon toy_hashEdwardsPublicKey [(1, 2)] 1 None =
     (Inr \<lparr>root = Some 46, pathIndices = [1, 0, 0, 0, 0, 0, 0, 0],
           siblings = Some 14 # map Some (tl ZEROS)\<rparr> :: lib_error error + MerkleProof) \<and>
   generateMerkleProof toy_poseidon toy_hashEdwardsPublicKey [(1, 2)] (- 1) None =
     (Inr \<lparr>root = Some 46, pathIndices = [- 1, - 1, - 1, - 1, - 1, - 1, - 1, - 1],
           siblings = [None, None, None, None, None, None, None, None]\<rparr>
        :: lib_error error + MerkleProof) \<and>
   generateMerkleProof toy_poseidon toy_hashEdwardsPublicKey [(1, 2)] 1 None
     \<noteq> (Inl IndexOutOfRange :: lib_error error + MerkleProof) \<and>
   generateMerkleProof toy_poseidon toy_hashEdwardsPublicKey [(1, 2)] (- 1) None
     \<noteq> (Inl IndexOutOfRange :: lib_error error + MerkleProof)"
  by code_simp

text \<open>
  Claim C5, amended. \<open>generateMerkleProof\<close> raises no error for the indices \<open>length keys\<close>
  and \<open>-1\<close>: for every key list both calls return a complete proof with the same root as
  the proof for index 0. With index \<open>length keys\<close> the proof has eight path entries and
  eight siblings; with index \<open>-1\<close> every path entry is \<open>-1\<close> and every sibling is absent.
\<close>

theorem generateMerkleProof_out_of_range_returns:
  "\<exists>p q r. generateMerkleProof bpr hk pubKeys (int (length pubKeys)) hashFn = Inr p \<and>
           generateMerkleProof bpr hk pubKeys (- 1) hashFn = Inr q \<and>
           generateMerkleProof bpr hk pubKeys 0 hashFn = Inr r \<and>
           root p = root r \<and> root q = root r \<and>
           length (pathIndices p) = 8 \<and> length (siblings p) = 8 \<and>
           pathIndices q = [- 1, - 1, - 1, - 1, - 1, - 1, - 1, - 1] \<and>
           siblings q = [None, None, None, None, None, None, None, None]"
proof -
  let ?h = "case hashFn of None \<Rightarrow> bpr | Some h \<Rightarrow> h"
  have n1: "st_pathIndices (merkle_loop ?h 0 \<lparr>st_index = - 1, st_prevLayer = map hk pubKeys, st_pathIndices = [], st_siblings = []\<rparr>) = [- 1, - 1, - 1, - 1, - 1, - 1, - 1, - 1]"
   "st_siblings (merkle_loop ?h 0 \<lparr>st_index = - 1, st_prevLayer = map hk pubKeys, st_pathIndices = [], st_siblings = []\<rparr>) = [None, None, None, None, None, None, None, None]"
    using merkle_loop_neg1[of "\<lparr>st_index = - 1, st_prevLayer = map hk pubKeys, st_pathIndices = [], st_siblings = []\<rparr>" ?h 0]
    by (simp_all add: replicate_TREE_DEPTH)
  have ln: "length (st_pathIndices (merkle_loop ?h 0 \<lparr>st_index = int (length pubKeys), st_prevLayer = map hk pubKeys, st_pathIndices = [], st_siblings = []\<rparr>)) = 8"
    "length (st_siblings (merkle_loop ?h 0 \<lparr>st_index = int (length pubKeys), st_prevLayer = map hk pubKeys, st_pathIndices = [], st_siblings = []\<rparr>)) = 8"
    using merkle_loop_lengths[of ?h 0 "\<lparr>st_index = int (length pubKeys), st_prevLayer = map hk pubKeys, st_pathIndices = [], st_siblings = []\<rparr>"]
    by (simp_all add: TREE_DEPTH_def)
  show ?thesis
    using n1 ln by (simp add: generateMerkleProof_root)
qed

text \<open>
  Claim C6 (index invariance). For a fixed key list the returned root does not depend on
  the index: the proofs for any two indices \<open>i\<close> and \<open>j\<close> (in particular any two distinct
  valid ones) have the same root, and \<open>computeMerkleRoot keys\<close> is the root of the proof for
  index 0.
\<close>

theorem generateMerkleProof_root_index_invariant:
  "\<exists>p q r. generateMerkleProof bpr hk pubKeys i hashFn = Inr p \<and>
           generateMerkleProof bpr hk pubKeys j hashFn = Inr q \<and>
           generateMerkleProof bpr hk pubKeys 0 hashFn = Inr r \<and>
           root p = root q \<and>
           computeMerkleRoot bpr hk pubKeys hashFn = Inr (root r)"
  by (simp add: computeMerkleRoot_def generateMerkleProof_root)


text \<open>
  Claim C8 (fixed proof size). For every key list, index and hash, \<open>generateMerkleProof\<close>
  returns, and the returned proof has exactly 8 path entries and exactly 8 siblings.
\<close>

theorem generateMerkleProof_lengths:
  "\<exists>p. generateMerkleProof bpr hk pubKeys index hashFn = Inr p \<and>
       length (pathIndices p) = 8 \<and> length (siblings p) = 8"
  using merkle_loop_lengths[of "case hashFn of None \<Rightarrow> bpr | Some h \<Rightarrow> h" 0
      "\<lparr>st_index = index, st_prevLayer = map hk pubKeys, st_pathIndices = [], st_siblings = []\<rparr>"]
  by (simp add: generateMerkleProof_def Let_def TREE_DEPTH_def)

text \<open>
  Claim C10 (empty key list). \<open>generateMerkleProof [] 0\<close> raises no error and returns no
  field-element root: the root and all eight siblings are absent, the path entries are all
  0, and a level built from an empty layer is empty again, so every intermediate layer is
  empty.
\<close>

theorem generateMerkleProof_empty:
  "generateMerkleProof bpr hk [] 0 hashFn =
     Inr \<lparr>root = None,
          pathIndices = [0, 0, 0, 0, 0, 0, 0, 0],
          siblings = [None, None, None, None, None, None, None, None]\<rparr> \<and>
   st_prevLayer (level_step h i (st\<lparr>st_prevLayer := []\<rparr>)) = []"
  by (simp add: generateMerkleProof_def Let_def merkle_loop_empty js_at_def level_step_prevLayer
      replicate_TREE_DEPTH)

section \<open>Properties of the signature input deriver\<close>

lemma cofactor_loop_body_search:
  "cofactor_loop bjj wp sig m pk i =
     body_search bjj wp sig m pk (concat (map (\<lambda>i. [(i, 0), (i, 1)]) [i..cofactor bjj - 1]))"
proof (induction bjj wp sig m pk i rule: cofactor_loop.induct)
  case (1 bjj wp sig m pk i)
  show ?case
  proof (cases "i < cofactor bjj")
    case False
    then show ?thesis
      by (subst cofactor_loop.simps) simp
  next
    case True
    then have u: "[i..cofactor bjj - 1] = i # [i + 1..cofactor bjj - 1]"
      by (simp add: upto_rec1)
    show ?thesis
    proof (cases "parity_loop bjj wp sig m pk i [0, 1]")
      case Continue
      then show ?thesis
        using "1.IH"[OF True Continue] True
        by (subst cofactor_loop.simps) (simp add: u split: outcome.splits)
    next
      case (Return out)
      then show ?thesis
        using True
        by (subst cofactor_loop.simps) (simp add: u split: outcome.splits)
    next
      case (Throw e)
      then show ?thesis
        using True
        by (subst cofactor_loop.simps) (simp add: u split: outcome.splits)
    qed
  qed
qed

lemma getPublicInputsFromSignature_eq_body_search:
  "getPublicInputsFromSignature bjj wp sig m pk =
     body_search bjj wp sig m pk (candidates (cofactor bjj))"
  by (simp add: getPublicInputsFromSignature_def candidates_def cofactor_loop_body_search)

lemma set_candidates:
  "(i, parity) \<in> set (candidates h) \<longleftrightarrow> 0 \<le> i \<and> i < h \<and> (parity = 0 \<or> parity = 1)"
  by (auto simp: candidates_def)

lemma body_search_Inr:
  "body_search bjj wp sig m pk cs = Inr out \<Longrightarrow>
   \<exists>i parity. (i, parity) \<in> set cs \<and> loop_body bjj wp sig m pk i parity = Return out"
proof (induction cs)
  case Nil
  then show ?case by simp
next
  case (Cons c cs)
  obtain i parity where c: "c = (i, parity)" by (cases c)
  show ?case
  proof (cases "loop_body bjj wp sig m pk i parity")
    case Continue
    then show ?thesis using Cons c by auto
  next
    case (Return v)
    then show ?thesis using Cons.prems c by auto
  next
    case (Throw e)
    then show ?thesis using Cons.prems c by simp
  qed
qed

lemma loop_body_Throw:
  "loop_body bjj wp sig m pk i parity = Throw e \<Longrightarrow> \<exists>e'. e = Propagated e'"
  by (auto simp: loop_body_def Let_def split: sum.splits if_splits)

lemma loop_body_Continue_iff:
  "loop_body bjj wp sig m pk i parity = Continue \<longleftrightarrow>
     inversion_succeeds bjj sig i \<and> \<not> satisfies_check bjj wp sig m pk i parity"
  by (auto simp: loop_body_def inversion_succeeds_def satisfies_check_def check_point_def Let_def
      split: sum.splits if_splits)

lemma loop_body_Return:
  "loop_body bjj wp sig m pk i parity = Return out \<Longrightarrow>
   \<exists>ecR rInv.
     pointFromX (ec bjj) (candidate_x bjj sig i) parity = Inr ecR \<and>
     zq_inv (Fs bjj) (candidate_x bjj sig i) = Inr rInv \<and>
     toEdwards wp (fromEllipticPoint wp ecR) = Inr (inp_R out) \<and>
     toEdwards wp (fromEllipticPoint wp (point_mul (ec bjj) ecR rInv)) = Inr (inp_T out) \<and>
     toEdwards wp (fromEllipticPoint wp (point_mul (ec bjj) (curve_g (ec bjj))
        (zq_neg (Fs bjj) (zq_mul (Fs bjj) rInv m)))) = Inr (inp_U out) \<and>
     equals wp (fromEllipticPoint wp
        (point_add (ec bjj)
           (point_mul (ec bjj) (point_mul (ec bjj) ecR rInv) (sig_s sig))
           (point_mul (ec bjj) (curve_g (ec bjj)) (zq_neg (Fs bjj) (zq_mul (Fs bjj) rInv m)))))
       pk"
  by (auto simp: loop_body_def Let_def split: sum.splits if_splits)

lemma body_search_NoValid_iff:
  "body_search bjj wp sig m pk cs = Inl NoValidCandidateFound \<longleftrightarrow>
     list_all (\<lambda>(i, parity). loop_body bjj wp sig m pk i parity = Continue) cs"
proof (induction cs)
  case Nil
  then show ?case by simp
next
  case (Cons c cs)
  obtain i parity where c: "c = (i, parity)" by (cases c)
  show ?case
  proof (cases "loop_body bjj wp sig m pk i parity")
    case Continue
    then show ?thesis using Cons c by simp
  next
    case (Return v)
    then show ?thesis using c by simp
  next
    case (Throw e)
    then show ?thesis using c loop_body_Throw[OF Throw] by auto
  qed
qed

lemma list_all_conj_split:
  "list_all (\<lambda>(i, parity). P i parity \<and> Q i parity) cs \<longleftrightarrow>
     list_all (\<lambda>(i, parity). P i parity) cs \<and> list_all (\<lambda>(i, parity). Q i parity) cs"
  by (induction cs) auto





lemma no_candidate_satisfies_iff:
  "no_candidate_satisfies bjj wp sig m pk \<longleftrightarrow>
     (\<forall>i parity. 0 \<le> i \<and> i < cofactor bjj \<and> (parity = 0 \<or> parity = 1) \<longrightarrow>
        \<not> satisfies_check bjj wp sig m pk i parity)"
  by (auto simp: no_candidate_satisfies_def list_all_iff set_candidates)

lemma all_inversions_succeed_iff:
  "all_inversions_succeed bjj sig \<longleftrightarrow>
     (\<forall>i. 0 \<le> i \<and> i < cofactor bjj \<longrightarrow> inversion_succeeds bjj sig i)"
  by (auto simp: all_inversions_succeed_def list_all_iff set_candidates)










lemma inverse_of_signature_r:
  assumes add: "\<forall>a b. zq_add (Fb bjj) a b = (a + b) mod p"
    and mul: "\<forall>a b. zq_mul (Fb bjj) a b = (a * b) mod p"
    and n: "zq_p (Fs bjj) = n"
    and inv: "\<forall>a. zq_inv (Fs bjj) a = zq_inv (Fs bjj) (a mod n)"
    and lo: "0 \<le> sig_r sig + i * n" and hi: "sig_r sig + i * n < p"
  shows "zq_inv (Fs bjj) (candidate_x bjj sig i) = zq_inv (Fs bjj) (sig_r sig)"
proof -
  have "candidate_x bjj sig i = (sig_r sig + i * n) mod p"
    using add mul n by (simp add: candidate_x_def mod_add_right_eq)
  also have "\<dots> = sig_r sig + i * n"
    using lo hi by simp
  finally have x: "candidate_x bjj sig i = sig_r sig + i * n" .
  have "zq_inv (Fs bjj) (candidate_x bjj sig i) = zq_inv (Fs bjj) ((sig_r sig + i * n) mod n)"
    using inv x by metis
  also have "(sig_r sig + i * n) mod n = sig_r sig mod n"
    by simp
  also have "zq_inv (Fs bjj) (sig_r sig mod n) = zq_inv (Fs bjj) (sig_r sig)"
    using inv by metis
  finally show ?thesis .
qed

subsection \<open>Claims about the signature input deriver\<close>

text \<open>
  Claim C2 (returned points), as the specification states it: whenever
  \<open>getPublicInputsFromSignature\<close> returns, the returned \<open>T\<close> and \<open>U\<close> are the Edwards forms of
  \<open>R \<cdot> r\<^sup>-\<^sup>1\<close> and \<open>G \<cdot> (- r\<^sup>-\<^sup>1 \<cdot> msgHash)\<close> for a candidate point \<open>R\<close>, with \<open>r\<^sup>-\<^sup>1\<close> the inverse of
  the signature's \<open>r\<close> in the order field. The source inverts the candidate x-coordinate, which
  the base field has reduced. On the small curve, for the signature \<open>(r, s) = (5, 2)\<close>, the
  message hash 1 and the public key \<open>(6, 5)\<close>, the function returns at the third candidate,
  whose x-coordinate is \<open>(5 + 7) mod 11 = 1\<close> with inverse 1, while the inverse of \<open>r = 5\<close>
  modulo 7 is 3; with that inverse no candidate gives the returned points.
\<close>

theorem returned_T_not_from_signature_r_counterexample:
  "getPublicInputsFromSignature toy_babyjubjub toy_WeierstrassPoint \<lparr>sig_r = 5, sig_s = 2\<rparr> 1 (Some (6, 5)) =
     Inr \<lparr>inp_R = (1, 6), inp_T = (1, 6), inp_U = (0, 10)\<rparr> \<and>
   zq_inv (Fs toy_babyjubjub) (sig_r \<lparr>sig_r = 5, sig_s = 2\<rparr>) = Inr 3 \<and>
   candidate_x toy_babyjubjub \<lparr>sig_r = 5, sig_s = 2\<rparr> 1 = 1 \<and>
   zq_inv (Fs toy_babyjubjub) (candidate_x toy_babyjubjub \<lparr>sig_r = 5, sig_s = 2\<rparr> 1) = Inr 1 \<and>
   \<not> outputs_from_signature_r toy_babyjubjub toy_WeierstrassPoint \<lparr>sig_r = 5, sig_s = 2\<rparr> 1 (Some (6, 5))
       \<lparr>inp_R = (1, 6), inp_T = (1, 6), inp_U = (0, 10)\<rparr> 0 0 \<and>
   \<not> outputs_from_signature_r toy_babyjubjub toy_WeierstrassPoint \<lparr>sig_r = 5, sig_s = 2\<rparr> 1 (Some (6, 5))
       \<lparr>inp_R = (1, 6), inp_T = (1, 6), inp_U = (0, 10)\<rparr> 0 1 \<and>
   \<not> outputs_from_signature_r toy_babyjubjub toy_WeierstrassPoint \<lparr>sig_r = 5, sig_s = 2\<rparr> 1 (Some (6, 5))
       \<lparr>inp_R = (1, 6), inp_T = (1, 6), inp_U = (0, 10)\<rparr> 1 0 \<and>
   \<not> outputs_from_signature_r toy_babyjubjub toy_WeierstrassPoint \<lparr>sig_r = 5, sig_s = 2\<rparr> 1 (Some (6, 5))
       \<lparr>inp_R = (1, 6), inp_T = (1, 6), inp_U = (0, 10)\<rparr> 1 1"
  by code_simp

text \<open>
  Claim C2, amended. Whenever \<open>getPublicInputsFromSignature\<close> returns, there is a candidate
  \<open>(i, parity)\<close> with \<open>0 \<le> i < cofactor\<close> and a point \<open>ecR\<close> recovered from the candidate
  x-coordinate, such that the returned \<open>R\<close>, \<open>T\<close> and \<open>U\<close> are the Edwards forms of \<open>ecR\<close>, of
  \<open>T = ecR \<cdot> rInv\<close> and of \<open>U = G \<cdot> (- rInv \<cdot> msgHash)\<close>, where \<open>G\<close> is the generator and \<open>rInv\<close> is
  the inverse in the order field of the candidate x-coordinate, that is of \<open>r + i \<cdot> n\<close> as the
  base field reduces it; and the Weierstrass form of \<open>s \<cdot> T + U\<close> equals the public key under
  the point equality of the source. When the base field computes modulo \<open>p\<close>, the order field
  has modulus \<open>n\<close> and inverts by residue modulo \<open>n\<close>, and \<open>0 \<le> r + i \<cdot> n < p\<close>, so that the
  base field does not reduce the candidate, \<open>rInv\<close> is the inverse of \<open>r\<close> itself.
\<close>

theorem getPublicInputsFromSignature_returns:
  assumes "getPublicInputsFromSignature bjj wp sig m pk = Inr out"
  shows "\<exists>i parity ecR rInv.
     0 \<le> i \<and> i < cofactor bjj \<and> (parity = 0 \<or> parity = 1) \<and>
     pointFromX (ec bjj) (candidate_x bjj sig i) parity = Inr ecR \<and>
     zq_inv (Fs bjj) (candidate_x bjj sig i) = Inr rInv \<and>
     toEdwards wp (fromEllipticPoint wp ecR) = Inr (inp_R out) \<and>
     toEdwards wp (fromEllipticPoint wp (point_mul (ec bjj) ecR rInv)) = Inr (inp_T out) \<and>
     toEdwards wp (fromEllipticPoint wp (point_mul (ec bjj) (curve_g (ec bjj))
        (zq_neg (Fs bjj) (zq_mul (Fs bjj) rInv m)))) = Inr (inp_U out) \<and>
     equals wp (fromEllipticPoint wp
        (point_add (ec bjj)
           (point_mul (ec bjj) (point_mul (ec bjj) ecR rInv) (sig_s sig))
           (point_mul (ec bjj) (curve_g (ec bjj)) (zq_neg (Fs bjj) (zq_mul (Fs bjj) rInv m)))))
       pk \<and>
     ((\<forall>a b. zq_add (Fb bjj) a b = (a + b) mod p) \<and>
      (\<forall>a b. zq_mul (Fb bjj) a b = (a * b) mod p) \<and>
      zq_p (Fs bjj) = n \<and>
      (\<forall>a. zq_inv (Fs bjj) a = zq_inv (Fs bjj) (a mod n)) \<and>
      0 \<le> sig_r sig + i * n \<and> sig_r sig + i * n < p \<longrightarrow>
        zq_inv (Fs bjj) (sig_r sig) = Inr rInv)"
proof -
  have fm: "body_search bjj wp sig m pk (candidates (cofactor bjj)) = Inr out"
    using assms by (simp add: getPublicInputsFromSignature_eq_body_search)
  obtain i parity where
    mem: "(i, parity) \<in> set (candidates (cofactor bjj))" and
    ret: "loop_body bjj wp sig m pk i parity = Return out"
    using body_search_Inr[OF fm] by blast
  have rng: "0 \<le> i \<and> i < cofactor bjj \<and> (parity = 0 \<or> parity = 1)"
    using mem by (simp add: set_candidates)
  obtain ecR rInv where
    pt: "pointFromX (ec bjj) (candidate_x bjj sig i) parity = Inr ecR" and
    iv: "zq_inv (Fs bjj) (candidate_x bjj sig i) = Inr rInv" and
    eR: "toEdwards wp (fromEllipticPoint wp ecR) = Inr (inp_R out)" and
    eT: "toEdwards wp (fromEllipticPoint wp (point_mul (ec bjj) ecR rInv)) = Inr (inp_T out)" and
    eU: "toEdwards wp (fromEllipticPoint wp (point_mul (ec bjj) (curve_g (ec bjj))
        (zq_neg (Fs bjj) (zq_mul (Fs bjj) rInv m)))) = Inr (inp_U out)" and
    eq: "equals wp (fromEllipticPoint wp
        (point_add (ec bjj)
           (point_mul (ec bjj) (point_mul (ec bjj) ecR rInv) (sig_s sig))
           (point_mul (ec bjj) (curve_g (ec bjj)) (zq_neg (Fs bjj) (zq_mul (Fs bjj) rInv m)))))
       pk"
    using loop_body_Return[OF ret] by (elim exE conjE)
  have nowrap: "(\<forall>a b. zq_add (Fb bjj) a b = (a + b) mod p) \<and>
      (\<forall>a b. zq_mul (Fb bjj) a b = (a * b) mod p) \<and>
      zq_p (Fs bjj) = n \<and>
      (\<forall>a. zq_inv (Fs bjj) a = zq_inv (Fs bjj) (a mod n)) \<and>
      0 \<le> sig_r sig + i * n \<and> sig_r sig + i * n < p \<longrightarrow>
        zq_inv (Fs bjj) (sig_r sig) = Inr rInv"
  proof (intro impI, elim conjE)
    assume "\<forall>a b. zq_add (Fb bjj) a b = (a + b) mod p"
      and "\<forall>a b. zq_mul (Fb bjj) a b = (a * b) mod p"
      and "zq_p (Fs bjj) = n"
      and "\<forall>a. zq_inv (Fs bjj) a = zq_inv (Fs bjj) (a mod n)"
      and "0 \<le> sig_r sig + i * n" and "sig_r sig + i * n < p"
    then have "zq_inv (Fs bjj) (candidate_x bjj sig i) = zq_inv (Fs bjj) (sig_r sig)"
      by (rule inverse_of_signature_r)
    then show "zq_inv (Fs bjj) (sig_r sig) = Inr rInv"
      using iv by simp
  qed
  show ?thesis
    using rng pt iv eR eT eU eq nowrap
    by (intro exI[of _ i] exI[of _ parity] exI[of _ ecR] exI[of _ rInv]) simp
qed

text \<open>
  The amended C2 on the small curve: a signature \<open>(r, s) = (3, 1)\<close> on the message hash 1
  under the public key \<open>(3, 8)\<close>. No candidate is reduced by the base field
  (\<open>3 + 7 < 11\<close>), so the inverse used is the inverse of \<open>r\<close>.
\<close>

theorem getPublicInputsFromSignature_returns_witness:
  "getPublicInputsFromSignature toy_babyjubjub toy_WeierstrassPoint \<lparr>sig_r = 3, sig_s = 1\<rparr> 1 (Some (3, 8))
     = Inr \<lparr>inp_R = (3, 3), inp_T = (6, 6), inp_U = (3, 3)\<rparr> \<and>
   (\<exists>i parity ecR rInv.
     0 \<le> i \<and> i < cofactor toy_babyjubjub \<and> (parity = 0 \<or> parity = 1) \<and>
     pointFromX (ec toy_babyjubjub) (candidate_x toy_babyjubjub \<lparr>sig_r = 3, sig_s = 1\<rparr> i) parity = Inr ecR \<and>
     zq_inv (Fs toy_babyjubjub) (candidate_x toy_babyjubjub \<lparr>sig_r = 3, sig_s = 1\<rparr> i) = Inr rInv \<and>
     zq_inv (Fs toy_babyjubjub) (sig_r \<lparr>sig_r = 3, sig_s = 1\<rparr>) = Inr rInv \<and>
     toEdwards toy_WeierstrassPoint (fromEllipticPoint toy_WeierstrassPoint ecR) = Inr (3, 3) \<and>
     toEdwards toy_WeierstrassPoint (fromEllipticPoint toy_WeierstrassPoint
        (point_mul (ec toy_babyjubjub) ecR rInv)) = Inr (6, 6))"
proof -
  have h: "getPublicInputsFromSignature toy_babyjubjub toy_WeierstrassPoint \<lparr>sig_r = 3, sig_s = 1\<rparr> 1 (Some (3, 8))
     = Inr \<lparr>inp_R = (3, 3), inp_T = (6, 6), inp_U = (3, 3)\<rparr>"
    by code_simp
  have f: "(\<forall>a b. zq_add (Fb toy_babyjubjub) a b = (a + b) mod 11) \<and>
    (\<forall>a b. zq_mul (Fb toy_babyjubjub) a b = (a * b) mod 11) \<and>
    zq_p (Fs toy_babyjubjub) = 7 \<and>
    (\<forall>a. zq_inv (Fs toy_babyjubjub) a = zq_inv (Fs toy_babyjubjub) (a mod 7))"
    by (simp add: toy_babyjubjub_def ZqField_mod_def power_mod)
  have cof: "cofactor toy_babyjubjub = 2"
    by (simp add: toy_babyjubjub_def)
  from getPublicInputsFromSignature_returns[OF h, where p = 11 and n = 7]
  obtain i parity ecR rInv where
    a: "0 \<le> i" "i < cofactor toy_babyjubjub" "parity = 0 \<or> parity = 1" and
    pt: "pointFromX (ec toy_babyjubjub) (candidate_x toy_babyjubjub \<lparr>sig_r = 3, sig_s = 1\<rparr> i) parity = Inr ecR" and
    iv: "zq_inv (Fs toy_babyjubjub) (candidate_x toy_babyjubjub \<lparr>sig_r = 3, sig_s = 1\<rparr> i) = Inr rInv" and
    eR: "toEdwards toy_WeierstrassPoint (fromEllipticPoint toy_WeierstrassPoint ecR) =
          Inr (inp_R \<lparr>inp_R = (3, 3), inp_T = (6, 6), inp_U = (3, 3)\<rparr>)" and
    eT: "toEdwards toy_WeierstrassPoint (fromEllipticPoint toy_WeierstrassPoint
          (point_mul (ec toy_babyjubjub) ecR rInv)) =
          Inr (inp_T \<lparr>inp_R = (3, 3), inp_T = (6, 6), inp_U = (3, 3)\<rparr>)" and
    nw: "(\<forall>a b. zq_add (Fb toy_babyjubjub) a b = (a + b) mod 11) \<and>
      (\<forall>a b. zq_mul (Fb toy_babyjubjub) a b = (a * b) mod 11) \<and>
      zq_p (Fs toy_babyjubjub) = 7 \<and>
      (\<forall>a. zq_inv (Fs toy_babyjubjub) a = zq_inv (Fs toy_babyjubjub) (a mod 7)) \<and>
      0 \<le> sig_r \<lparr>sig_r = 3, sig_s = 1\<rparr> + i * 7 \<and> sig_r \<lparr>sig_r = 3, sig_s = 1\<rparr> + i * 7 < 11 \<longrightarrow>
        zq_inv (Fs toy_babyjubjub) (sig_r \<lparr>sig_r = 3, sig_s = 1\<rparr>) = Inr rInv"
    by (elim exE conjE)
  have rng: "0 \<le> sig_r \<lparr>sig_r = 3, sig_s = 1\<rparr> + i * 7 \<and> sig_r \<lparr>sig_r = 3, sig_s = 1\<rparr> + i * 7 < 11"
    using a(1,2) cof by simp
  have sr: "zq_inv (Fs toy_babyjubjub) (sig_r \<lparr>sig_r = 3, sig_s = 1\<rparr>) = Inr rInv"
    using nw f rng by blast
  have "\<exists>i parity ecR rInv.
     0 \<le> i \<and> i < cofactor toy_babyjubjub \<and> (parity = 0 \<or> parity = 1) \<and>
     pointFromX (ec toy_babyjubjub) (candidate_x toy_babyjubjub \<lparr>sig_r = 3, sig_s = 1\<rparr> i) parity = Inr ecR \<and>
     zq_inv (Fs toy_babyjubjub) (candidate_x toy_babyjubjub \<lparr>sig_r = 3, sig_s = 1\<rparr> i) = Inr rInv \<and>
     zq_inv (Fs toy_babyjubjub) (sig_r \<lparr>sig_r = 3, sig_s = 1\<rparr>) = Inr rInv \<and>
     toEdwards toy_WeierstrassPoint (fromEllipticPoint toy_WeierstrassPoint ecR) = Inr (3, 3) \<and>
     toEdwards toy_WeierstrassPoint (fromEllipticPoint toy_WeierstrassPoint
        (point_mul (ec toy_babyjubjub) ecR rInv)) = Inr (6, 6)"
    using a pt iv sr eR eT
    by (intro exI[of _ i] exI[of _ parity] exI[of _ ecR] exI[of _ rInv]) simp
  then show ?thesis
    using h by simp
qed



text \<open>
  Claim C4 (exhaustion), as the specification states it: the function fails with
  \<open>NoValidCandidateFound\<close> if and only if no candidate satisfies the verification check. With
  \<open>r = 0\<close> the inversion of the first candidate fails, so the function fails with the
  propagated arithmetic error and not with \<open>NoValidCandidateFound\<close>, although no candidate
  satisfies the check.
\<close>

theorem NoValidCandidateFound_iff_counterexample:
  "getPublicInputsFromSignature toy_babyjubjub toy_WeierstrassPoint \<lparr>sig_r = 0, sig_s = 1\<rparr> 1 (Some (3, 8))
     = Inl (Propagated DivisionByZero) \<and>
   no_candidate_satisfies toy_babyjubjub toy_WeierstrassPoint \<lparr>sig_r = 0, sig_s = 1\<rparr> 1 (Some (3, 8))"
  by code_simp

text \<open>
  Claim C4, amended. The function fails with \<open>NoValidCandidateFound\<close> if and only if the
  order-field inversion succeeds for every candidate and no candidate satisfies the
  verification check, where the candidates are all \<open>i\<close> with \<open>0 \<le> i < cofactor\<close> and both
  parities. A candidate whose x-coordinate has no curve point at the requested parity is
  skipped: the body continues, the loop goes on with the next parity, and the exception of
  the recovery does not reach the caller.
\<close>

theorem NoValidCandidateFound_iff:
  "(getPublicInputsFromSignature bjj wp sig m pk = Inl NoValidCandidateFound \<longleftrightarrow>
      all_inversions_succeed bjj sig \<and> no_candidate_satisfies bjj wp sig m pk) \<and>
   (all_inversions_succeed bjj sig \<longleftrightarrow>
      (\<forall>i. 0 \<le> i \<and> i < cofactor bjj \<longrightarrow> inversion_succeeds bjj sig i)) \<and>
   (no_candidate_satisfies bjj wp sig m pk \<longleftrightarrow>
      (\<forall>i parity. 0 \<le> i \<and> i < cofactor bjj \<and> (parity = 0 \<or> parity = 1) \<longrightarrow>
         \<not> satisfies_check bjj wp sig m pk i parity)) \<and>
   (zq_inv (Fs bjj) (candidate_x bjj sig i) = Inr rInv \<longrightarrow>
    pointFromX (ec bjj) (candidate_x bjj sig i) parity = Inl e \<longrightarrow>
      loop_body bjj wp sig m pk i parity = Continue \<and>
      parity_loop bjj wp sig m pk i (parity # rest) = parity_loop bjj wp sig m pk i rest)"
proof -
  have skip: "loop_body bjj wp sig m pk i parity = Continue"
    if "zq_inv (Fs bjj) (candidate_x bjj sig i) = Inr rInv"
      and "pointFromX (ec bjj) (candidate_x bjj sig i) parity = Inl e"
    using that by (simp add: loop_body_def Let_def)
  have iff: "getPublicInputsFromSignature bjj wp sig m pk = Inl NoValidCandidateFound \<longleftrightarrow>
      all_inversions_succeed bjj sig \<and> no_candidate_satisfies bjj wp sig m pk"
    by (simp add: getPublicInputsFromSignature_eq_body_search body_search_NoValid_iff
        loop_body_Continue_iff list_all_conj_split all_inversions_succeed_def
        no_candidate_satisfies_def)
  show ?thesis
    using iff skip all_inversions_succeed_iff[of bjj sig]
      no_candidate_satisfies_iff[of bjj wp sig m pk]
    by simp
qed

text \<open>
  The amended C4 on the small curve: for \<open>r = 5\<close> every inversion succeeds, the first
  candidate has no curve point, and no candidate matches.
\<close>

theorem NoValidCandidateFound_iff_witness:
  "getPublicInputsFromSignature toy_babyjubjub toy_WeierstrassPoint \<lparr>sig_r = 5, sig_s = 1\<rparr> 1 (Some (0, 1))
     = Inl NoValidCandidateFound \<and>
   all_inversions_succeed toy_babyjubjub \<lparr>sig_r = 5, sig_s = 1\<rparr> \<and>
   no_candidate_satisfies toy_babyjubjub toy_WeierstrassPoint \<lparr>sig_r = 5, sig_s = 1\<rparr> 1 (Some (0, 1)) \<and>
   zq_inv (Fs toy_babyjubjub) (candidate_x toy_babyjubjub \<lparr>sig_r = 5, sig_s = 1\<rparr> 0) = Inr 3 \<and>
   pointFromX (ec toy_babyjubjub) (candidate_x toy_babyjubjub \<lparr>sig_r = 5, sig_s = 1\<rparr> 0) 0 = Inl InvalidPoint \<and>
   loop_body toy_babyjubjub toy_WeierstrassPoint \<lparr>sig_r = 5, sig_s = 1\<rparr> 1 (Some (0, 1)) 0 0 = Continue"
proof -
  have a: "all_inversions_succeed toy_babyjubjub \<lparr>sig_r = 5, sig_s = 1\<rparr>"
    by code_simp
  have b: "no_candidate_satisfies toy_babyjubjub toy_WeierstrassPoint \<lparr>sig_r = 5, sig_s = 1\<rparr> 1 (Some (0, 1))"
    by code_simp
  have c: "zq_inv (Fs toy_babyjubjub) (candidate_x toy_babyjubjub \<lparr>sig_r = 5, sig_s = 1\<rparr> 0) = Inr 3"
    by code_simp
  have d: "pointFromX (ec toy_babyjubjub) (candidate_x toy_babyjubjub \<lparr>sig_r = 5, sig_s = 1\<rparr> 0) 0 = Inl InvalidPoint"
    by code_simp
  show ?thesis
    using a b c d
      NoValidCandidateFound_iff[of toy_babyjubjub toy_WeierstrassPoint "\<lparr>sig_r = 5, sig_s = 1\<rparr>" 1
        "Some (0, 1)" 0 3 0 InvalidPoint "[]"]
    by simp
qed

text \<open>
  Claim C9 (propagation of the inversion error). When \<open>sig.r\<close> is 0, the cofactor is
  positive, the base field computes \<open>0 \<cdot> n = 0\<close> and \<open>0 + 0 = 0\<close>, and the order-field
  inversion of 0 raises \<open>e\<close>, then \<open>getPublicInputsFromSignature\<close> fails with exactly \<open>e\<close>,
  propagated: the error is not caught by the handler that skips candidates and is not turned
  into \<open>NoValidCandidateFound\<close>.
\<close>

theorem inversion_error_propagates:
  assumes "0 < cofactor bjj" and "sig_r sig = 0"
    and "zq_mul (Fb bjj) 0 (zq_p (Fs bjj)) = 0" and "zq_add (Fb bjj) 0 0 = 0"
    and "zq_inv (Fs bjj) 0 = Inl e"
  shows "getPublicInputsFromSignature bjj wp sig m pk = Inl (Propagated e)"
proof -
  have "candidate_x bjj sig 0 = 0"
    using assms by (simp add: candidate_x_def)
  then have "loop_body bjj wp sig m pk 0 0 = Throw (Propagated e)"
    using assms by (simp add: loop_body_def)
  then show ?thesis
    using assms(1)
    by (simp add: getPublicInputsFromSignature_def) (subst cofactor_loop.simps, simp)
qed

text \<open>
  The hypotheses of C9 on the small instance.
\<close>

theorem inversion_error_propagates_witness:
  "getPublicInputsFromSignature toy_babyjubjub toy_WeierstrassPoint \<lparr>sig_r = 0, sig_s = 5\<rparr> 2 (Some (3, 8))
     = Inl (Propagated DivisionByZero)"
proof -
  have "0 < cofactor toy_babyjubjub" "sig_r \<lparr>sig_r = 0, sig_s = 5\<rparr> = 0"
    "zq_mul (Fb toy_babyjubjub) 0 (zq_p (Fs toy_babyjubjub)) = 0"
    "zq_add (Fb toy_babyjubjub) 0 0 = 0"
    "zq_inv (Fs toy_babyjubjub) 0 = Inl DivisionByZero"
    by (simp_all add: toy_babyjubjub_def ZqField_mod_def)
  then show ?thesis
    by (rule inversion_error_propagates)
qed

end
